theory Spec2Isabelle
  imports Complex_Main
begin

section \<open>Python strings\<close>

text \<open>
  A Python \<open>str\<close> is a sequence of Unicode code points; the source uses code points outside
  Latin-1 (the en dash U+2013 in the template values, the replacement character U+FFFD in the
  quality classifier), so a string is a list of natural numbers here and \<open>u\<close> turns an ASCII
  literal into one.
\<close>

type_synonym ustr = "nat list"

definition u :: "string \<Rightarrow> ustr" where
  "u s = map of_char s"

text \<open>
  The Unicode character database behind \<open>str.isspace\<close>, \<open>str.isalpha\<close>, the regular
  expression class \<open>\d\<close>, \<open>str.upper\<close> and \<open>str.lower\<close> is not part of the repository:
  every function that consults it takes the tables as its first argument.
\<close>

record chartab =
  isspace :: "nat \<Rightarrow> bool"
  isalpha :: "nat \<Rightarrow> bool"
  isdecimal :: "nat \<Rightarrow> bool"
  str_upper :: "ustr \<Rightarrow> ustr"
  str_lower :: "ustr \<Rightarrow> ustr"

text \<open>
  The tables restricted to ASCII (with the Latin-1 white space), which is what CPython
  computes on strings of code points below 128. It is the instance used to run the model on
  sample inputs.
\<close>

definition ascii_upper :: "nat \<Rightarrow> nat" where
  "ascii_upper c = (if 97 \<le> c \<and> c \<le> 122 then c - 32 else c)"

definition ascii_lower :: "nat \<Rightarrow> nat" where
  "ascii_lower c = (if 65 \<le> c \<and> c \<le> 90 then c + 32 else c)"

definition ascii_tab :: chartab where
  "ascii_tab = \<lparr>
     isspace = (\<lambda>c. (9 \<le> c \<and> c \<le> 13) \<or> (28 \<le> c \<and> c \<le> 32) \<or> c = 133 \<or> c = 160),
     isalpha = (\<lambda>c. (65 \<le> c \<and> c \<le> 90) \<or> (97 \<le> c \<and> c \<le> 122)),
     isdecimal = (\<lambda>c. 48 \<le> c \<and> c \<le> 57),
     str_upper = map ascii_upper,
     str_lower = map ascii_lower \<rparr>"

text \<open>\<open>s.strip()\<close>\<close>

definition strip :: "chartab \<Rightarrow> ustr \<Rightarrow> ustr" where
  "strip U s = rev (dropWhile (isspace U) (rev (dropWhile (isspace U) s)))"

text \<open>\<open>s.split(sep)\<close> for a one-character separator: never returns the empty list.\<close>

fun split_on :: "nat \<Rightarrow> ustr \<Rightarrow> ustr list" where
  "split_on sep [] = [[]]"
| "split_on sep (c # cs) =
     (if c = sep then [] # split_on sep cs
      else (case split_on sep cs of
              [] \<Rightarrow> [[c]]
            | w # ws \<Rightarrow> (c # w) # ws))"

text \<open>\<open>s.split()\<close>: the maximal runs of characters that are not white space.
  \<open>cur\<close> is the token being read.\<close>

fun split_acc :: "chartab \<Rightarrow> ustr \<Rightarrow> ustr \<Rightarrow> ustr list" where
  "split_acc U cur [] = (if cur = [] then [] else [cur])"
| "split_acc U cur (c # cs) =
     (if isspace U c
      then (if cur = [] then split_acc U [] cs else cur # split_acc U [] cs)
      else split_acc U (cur @ [c]) cs)"

definition split_ws :: "chartab \<Rightarrow> ustr \<Rightarrow> ustr list" where
  "split_ws U s = split_acc U [] s"

text \<open>\<open>s.startswith(p)\<close>, \<open>s.endswith(p)\<close>, \<open>p in s\<close>, \<open>s.replace(a, b)\<close> for single
  characters, \<open>sep.join(parts)\<close>, \<open>xs[a:b]\<close> for non-negative bounds, \<open>s.count(c)\<close>.\<close>

definition startswith :: "ustr \<Rightarrow> ustr \<Rightarrow> bool" where
  "startswith s p = (take (length p) s = p)"

definition endswith :: "ustr \<Rightarrow> ustr \<Rightarrow> bool" where
  "endswith s p = (length p \<le> length s \<and> drop (length s - length p) s = p)"

fun contains :: "ustr \<Rightarrow> ustr \<Rightarrow> bool" where
  "contains p [] = (p = [])"
| "contains p (c # cs) = (startswith (c # cs) p \<or> contains p cs)"

definition replace_char :: "nat \<Rightarrow> nat \<Rightarrow> ustr \<Rightarrow> ustr" where
  "replace_char a b s = map (\<lambda>c. if c = a then b else c) s"

fun join :: "ustr \<Rightarrow> ustr list \<Rightarrow> ustr" where
  "join sep [] = []"
| "join sep [p] = p"
| "join sep (p # q # ps) = p @ sep @ join sep (q # ps)"

definition slice :: "'a list \<Rightarrow> nat \<Rightarrow> nat \<Rightarrow> 'a list" where
  "slice xs a b = take (b - a) (drop a xs)"

definition count_char :: "nat \<Rightarrow> ustr \<Rightarrow> nat" where
  "count_char c s = length (filter (\<lambda>x. x = c) s)"

text \<open>The format specification \<open>{n:02d}\<close>: decimal digits, a minus sign for a negative number,
  zeros on the left up to width two.\<close>

fun dec_digits :: "nat \<Rightarrow> ustr" where
  "dec_digits n = (if n < 10 then [48 + n] else dec_digits (n div 10) @ [48 + n mod 10])"

declare dec_digits.simps [simp del]

definition format_02d :: "int \<Rightarrow> ustr" where
  "format_02d n =
     (if n < 0 then 45 # dec_digits (nat (- n))
      else replicate (2 - length (dec_digits (nat n))) 48 @ dec_digits (nat n))"

section \<open>Regular expressions\<close>

text \<open>
  The fragment of Python's \<open>re\<close> syntax that the patterns of the source use: character
  classes, concatenation, the optional \<open>r?\<close>, the counted \<open>r{n}\<close> (unfolded by \<open>rep\<close>) and the
  greedy repetition of a single character class. \<open>rmatch\<close> lists the rests of the input after
  every way of matching at its start, in the order in which a backtracking matcher tries
  them (greedy: longest first), so the head of the list is the match \<open>re\<close> reports.
\<close>

datatype cclass = Digit | OneOf ustr | Between nat nat

fun in_class :: "chartab \<Rightarrow> cclass \<Rightarrow> nat \<Rightarrow> bool" where
  "in_class U Digit c = isdecimal U c"
| "in_class U (OneOf cs) c = (c \<in> set cs)"
| "in_class U (Between lo hi) c = (lo \<le> c \<and> c \<le> hi)"

datatype regex = Eps | Chr cclass | Seq regex regex | Opt regex | Star cclass

fun rep :: "nat \<Rightarrow> regex \<Rightarrow> regex" where
  "rep 0 r = Eps"
| "rep (Suc n) r = Seq r (rep n r)"

definition plus :: "cclass \<Rightarrow> regex" where
  "plus c = Seq (Chr c) (Star c)"

fun seqs :: "regex list \<Rightarrow> regex" where
  "seqs [] = Eps"
| "seqs (r # rs) = Seq r (seqs rs)"

fun rmatch :: "chartab \<Rightarrow> regex \<Rightarrow> ustr \<Rightarrow> ustr list" where
  "rmatch U Eps s = [s]"
| "rmatch U (Chr c) s =
     (case s of [] \<Rightarrow> [] | x # t \<Rightarrow> if in_class U c x then [t] else [])"
| "rmatch U (Seq r1 r2) s = concat (map (rmatch U r2) (rmatch U r1 s))"
| "rmatch U (Opt r) s = rmatch U r s @ [s]"
| "rmatch U (Star c) s =
     map (\<lambda>k. drop k s) (rev [0..<Suc (length (takeWhile (in_class U c) s))])"

text \<open>\<open>re.search(pattern, s)\<close>: the match at the leftmost position that has one, as
  \<open>match.group()\<close>; \<open>None\<close> when no position has one.\<close>

fun re_search :: "chartab \<Rightarrow> regex \<Rightarrow> ustr \<Rightarrow> ustr option" where
  "re_search U r [] = (case rmatch U r [] of [] \<Rightarrow> None | rest # _ \<Rightarrow> Some [])"
| "re_search U r (c # cs) =
     (case rmatch U r (c # cs) of
        [] \<Rightarrow> re_search U r cs
      | rest # _ \<Rightarrow> Some (take (length (c # cs) - length rest) (c # cs)))"

section \<open>The structuring engine\<close>

text \<open>
  A row is the eleven-element list that \<open>format_text_to_structure\<close> appends; the fields are
  named after the comments and the spreadsheet headers of the source. The fourth element is
  the position counter, a Python \<open>int\<close>.
\<close>

record attribute_row =
  functional_location :: ustr
  class_number :: ustr
  class_type :: ustr
  position_number :: int
  characteristic_name :: ustr
  characteristic_value :: ustr
  description :: ustr
  unit_of_measure :: ustr
  remarks :: ustr
  additional_info :: ustr
  document_reference :: ustr

definition mk_row :: "ustr \<Rightarrow> int \<Rightarrow> ustr \<Rightarrow> ustr \<Rightarrow> ustr \<Rightarrow> ustr \<Rightarrow> ustr \<Rightarrow> attribute_row" where
  "mk_row floc pc attr_name attr_value descr uom doc_ref =
     \<lparr> functional_location = floc,
       class_number = u ''FG-FGAS'',
       class_type = u ''003'',
       position_number = pc,
       characteristic_name = attr_name,
       characteristic_value = attr_value,
       description = descr,
       unit_of_measure = uom,
       remarks = [],
       additional_info = [],
       document_reference = doc_ref \<rparr>"

subsection \<open>Document reference\<close>

text \<open>The pattern \<^verbatim>\<open>P?(\d+[-.]){3}\d+\<close>.\<close>

definition doc_ref_pattern :: regex where
  "doc_ref_pattern =
     seqs [Opt (Chr (OneOf (u ''P''))),
           rep 3 (Seq (plus Digit) (Chr (OneOf (u ''-.'')))),
           plus Digit]"

definition default_doc_ref :: ustr where
  "default_doc_ref = u ''P11569-11-99-40-2619-1''"

text \<open>The reference derived from the file name; \<open>pdf_name\<close> defaults to \<open>None\<close>, and
  \<open>if pdf_name:\<close> is false for the empty string as well.\<close>

definition ref_of_name :: "chartab \<Rightarrow> ustr \<Rightarrow> ustr" where
  "ref_of_name U pdf_name =
     (case re_search U doc_ref_pattern pdf_name of
        Some m \<Rightarrow>
          (let r = (if startswith m (u ''P'') then m else u ''P'' @ m)
           in if endswith r (u ''-1'') then r else r @ u ''-1'')
      | None \<Rightarrow> u ''P'' @ replace_char 45 46 pdf_name @ u ''-1'')"

definition doc_ref_from_name :: "chartab \<Rightarrow> ustr option \<Rightarrow> ustr" where
  "doc_ref_from_name U pdf_name =
     (case pdf_name of
        None \<Rightarrow> default_doc_ref
      | Some n \<Rightarrow> if n = [] then default_doc_ref else ref_of_name U n)"

text \<open>The loop over \<open>lines[:20]\<close>: the first line with a match replaces the reference
  (\<open>break\<close>).\<close>

fun doc_ref_from_lines :: "chartab \<Rightarrow> ustr list \<Rightarrow> ustr \<Rightarrow> ustr" where
  "doc_ref_from_lines U [] full_doc_ref = full_doc_ref"
| "doc_ref_from_lines U (line # rest) full_doc_ref =
     (case re_search U doc_ref_pattern line of
        Some found_ref \<Rightarrow>
          (if startswith found_ref (u ''P'') then found_ref else u ''P'' @ found_ref)
      | None \<Rightarrow> doc_ref_from_lines U rest full_doc_ref)"

subsection \<open>Functional location\<close>

text \<open>The patterns \<^verbatim>\<open>\d{2}-\d{2}-[A-Z]{4}-\d{4}\<close>, \<^verbatim>\<open>[A-Z]{2,}-\d+\<close> and
  \<^verbatim>\<open>\d+-\d+-[A-Z]+\<close>.\<close>

definition dash :: regex where
  "dash = Chr (OneOf (u ''-''))"

definition upper_AZ :: cclass where
  "upper_AZ = Between 65 90"

definition location_patterns :: "regex list" where
  "location_patterns =
     [seqs [rep 2 (Chr Digit), dash, rep 2 (Chr Digit), dash, rep 4 (Chr upper_AZ), dash,
            rep 4 (Chr Digit)],
      seqs [rep 2 (Chr upper_AZ), Star upper_AZ, dash, plus Digit],
      seqs [plus Digit, dash, plus Digit, dash, plus upper_AZ]]"

definition default_location :: ustr where
  "default_location = u ''11-18-XTGD-5403''"

text \<open>The inner loop over the patterns for one line: the first pattern whose leftmost match
  is longer than 8 characters gives the location, and \<open>break\<close> leaves this inner loop.\<close>

fun match_location :: "chartab \<Rightarrow> regex list \<Rightarrow> ustr \<Rightarrow> ustr option" where
  "match_location U [] line = None"
| "match_location U (pattern # rest) line =
     (case re_search U pattern line of
        Some m \<Rightarrow> if length m > 8 then Some m else match_location U rest line
      | None \<Rightarrow> match_location U rest line)"

text \<open>The outer loop runs over every line; a line with a match overwrites the location
  found so far.\<close>

definition location_step :: "chartab \<Rightarrow> ustr \<Rightarrow> ustr \<Rightarrow> ustr" where
  "location_step U line floc =
     (case match_location U location_patterns line of Some m \<Rightarrow> m | None \<Rightarrow> floc)"

definition find_location :: "chartab \<Rightarrow> ustr list \<Rightarrow> ustr" where
  "find_location U lines = fold (location_step U) lines default_location"

subsection \<open>Template rows\<close>

type_synonym template = "ustr \<times> ustr \<times> ustr \<times> ustr"

definition equipment_attributes :: "template list" where
  "equipment_attributes =
     [(u ''NACC01'', 177 # u ''10'', u ''Accuracy'', u ''%''),
      (u ''HSE-HAZ_AREA'', u ''Hazardous Area'', u ''Area Classification'', []),
      (u ''CALR01'', u ''0'' @ [8211] @ u ''50'', u ''Calibrated Range'', u ''ppm''),
      (u ''DETCOMM'', u ''4'' @ [8211] @ u ''20 mA (HART)'', u ''Detector Communication'', []),
      (u ''ENVIRONT'', [], u ''Environment'', []),
      (u ''ACFS01'', u ''Warning, Alarm'', u ''Fail Safe State'', []),
      (u ''POWREQ'', u ''24 VDC'', u ''Power Requirement'', u ''V''),
      (u ''TEMP01'', u ''-40 to +75'', u ''Operating Temperature'', [176, 67]),
      (u ''CERTIF'', u ''ATEX, IECEx'', u ''Certification'', []),
      (u ''MFGR'', u ''TYCO'', u ''Manufacturer'', []),
      (u ''MODEL'', u ''H2S Gas Detector'', u ''Model/Type'', []),
      (u ''CONN01'', u ''M20 x 1.5'', u ''Connection'', []),
      (u ''HOUSING'', u ''Explosion Proof'', u ''Housing Type'', []),
      (u ''DISPLAY'', u ''LCD'', u ''Display Type'', []),
      (u ''ALARM'', u ''Visual & Audible'', u ''Alarm Type'', [])]"

text \<open>The state of the two emitting loops: \<open>structured_data\<close> and \<open>position_counter\<close>.\<close>

type_synonym emit_state = "attribute_row list \<times> int"

fun template_step :: "ustr \<Rightarrow> ustr \<Rightarrow> template \<Rightarrow> emit_state \<Rightarrow> emit_state" where
  "template_step floc doc_ref (attr_name, attr_value, descr, uom) (structured_data, pc) =
     (if attr_value = [] \<and> pc mod 3 = 0 then (structured_data, pc)
      else (structured_data @ [mk_row floc pc attr_name attr_value descr uom doc_ref], pc + 1))"

definition emit_templates :: "ustr \<Rightarrow> ustr \<Rightarrow> template list \<Rightarrow> emit_state \<Rightarrow> emit_state" where
  "emit_templates floc doc_ref attrs st = fold (template_step floc doc_ref) attrs st"

subsection \<open>Rows scanned from the text\<close>

definition skip_patterns :: "ustr list" where
  "skip_patterns =
     [u ''Sheet'', u ''PETROLEUM'', u ''CONTRACT'', u ''TRANS'', u ''Previous'',
      u ''List of Attachments'', u ''Project Manager'', u ''file://'',
      u ''Terms:'', u ''F.O.B.'', u ''Prices subject'', u ''CONFIDENTIAL'']"

definition spec_keywords :: "ustr list" where
  "spec_keywords =
     [u ''PPM'', u ''MA'', u ''VDC'', u ''TEMP'', u ''PRESSURE'', u ''RANGE'', u ''ALARM'',
      u ''ACCURACY'', u ''DETECTOR'', u ''GAS'', u ''H2S'', u ''ATEX'', u ''IECEX'']"

definition units :: "ustr list" where
  "units = [u ''ppm'', u ''mA'', u ''VDC'', [176, 67], u ''%'', u ''bar'', u ''psi'']"

text \<open>\<open>for i, part in enumerate(parts): if re.search(r'\d+', part): ... break\<close>: the first
  token with a digit, and its index.\<close>

fun first_numeric :: "chartab \<Rightarrow> ustr list \<Rightarrow> nat \<Rightarrow> (nat \<times> ustr) option" where
  "first_numeric U [] i = None"
| "first_numeric U (part # rest) i =
     (case re_search U (plus Digit) part of
        Some m \<Rightarrow> Some (i, part)
      | None \<Rightarrow> first_numeric U rest (Suc i))"

fun find_unit :: "chartab \<Rightarrow> ustr list \<Rightarrow> ustr \<Rightarrow> ustr" where
  "find_unit U [] line = []"
| "find_unit U (unit # rest) line =
     (if contains (str_lower U unit) (str_lower U line) then unit else find_unit U rest line)"

definition scan_step :: "chartab \<Rightarrow> ustr \<Rightarrow> ustr \<Rightarrow> ustr \<Rightarrow> emit_state \<Rightarrow> emit_state" where
  "scan_step U floc doc_ref line st =
     (case st of (structured_data, pc) \<Rightarrow>
        if list_ex (\<lambda>pattern. contains pattern line) skip_patterns then st
        else if list_ex (\<lambda>keyword. contains keyword (str_upper U line)) spec_keywords then
          (let parts = split_ws U line in
           case first_numeric U parts 0 of
             None \<Rightarrow> st
           | Some (i, part) \<Rightarrow>
               (let attr_name = u ''SPEC'' @ format_02d pc;
                    descr = take 50 (join (u '' '') (slice parts (i - 2) (i + 3)));
                    uom = find_unit U units line
                in (structured_data @
                      [mk_row floc pc attr_name part (strip U descr) uom doc_ref],
                    pc + 1)))
        else st)"

subsection \<open>\<open>format_text_to_structure\<close>\<close>

definition text_lines :: "chartab \<Rightarrow> ustr \<Rightarrow> ustr list" where
  "text_lines U text = filter (\<lambda>l. l \<noteq> []) (map (strip U) (split_on 10 text))"

definition format_text_to_structure :: "chartab \<Rightarrow> ustr \<Rightarrow> ustr option \<Rightarrow> attribute_row list" where
  "format_text_to_structure U text pdf_name =
     (if strip U text = [] then []
      else
        (let lines = text_lines U text;
             full_doc_ref = doc_ref_from_lines U (take 20 lines) (doc_ref_from_name U pdf_name);
             floc = find_location U lines;
             st1 = emit_templates floc full_doc_ref equipment_attributes ([], 1);
             st2 = fold (scan_step U floc full_doc_ref) lines st1
         in fst st2))"

subsection \<open>\<open>_generate_sample_attributes\<close>\<close>

definition sample_attributes :: "template list" where
  "sample_attributes =
     [(u ''NACC01'', 177 # u ''5'', u ''Accuracy'', u ''%''),
      (u ''HSE-HAZ_AREA'', u ''Zone 1'', u ''Area Classification'', []),
      (u ''CALR01'', u ''0'' @ [8211] @ u ''100'', u ''Calibrated Range'', u ''ppm''),
      (u ''DETCOMM'', u ''Modbus RTU'', u ''Detector Communication'', []),
      (u ''ENVIRONT'', u ''IP65'', u ''Environment Rating'', []),
      (u ''ACFS01'', u ''Fail to Safe'', u ''Fail Safe State'', []),
      (u ''POWREQ'', u ''12-30 VDC'', u ''Power Requirement'', u ''V''),
      (u ''TEMP01'', u ''-20 to +60'', u ''Operating Temperature'', [176, 67]),
      (u ''CERTIF'', u ''ATEX Zone 1'', u ''Certification'', []),
      (u ''MFGR'', u ''Honeywell'', u ''Manufacturer'', []),
      (u ''MODEL'', u ''Gas Monitor'', u ''Model/Type'', []),
      (u ''CONN01'', u ''1/2 NPT'', u ''Connection'', []),
      (u ''HOUSING'', u ''Weatherproof'', u ''Housing Type'', []),
      (u ''DISPLAY'', u ''LED Indicators'', u ''Display Type'', []),
      (u ''ALARM'', u ''Relay Output'', u ''Alarm Type'', [])]"

fun sample_step :: "ustr \<Rightarrow> ustr \<Rightarrow> template \<Rightarrow> emit_state \<Rightarrow> emit_state" where
  "sample_step floc doc_ref (attr_name, attr_value, descr, uom) (sample_data, pc) =
     (sample_data @ [mk_row floc pc attr_name attr_value descr uom doc_ref], pc + 1)"

definition generate_sample_attributes :: "chartab \<Rightarrow> ustr \<Rightarrow> attribute_row list" where
  "generate_sample_attributes U pdf_name =
     fst (fold (sample_step (u ''11-18-XTGD-5404'') (ref_of_name U pdf_name))
            sample_attributes ([], 1))"

section \<open>The extraction quality classifier\<close>

text \<open>
  \<open>_is_low_quality_extraction\<close>. The source compares IEEE doubles: \<open>alpha_chars / total_chars
  < 0.3\<close> and \<open>problem_chars > total_chars * 0.05\<close>. The model compares the exact rationals
  \<open>3/10\<close> and \<open>5/100\<close>. The two agree for every text of fewer than \<open>2^50\<close> characters: a
  quotient of such lengths that differs from \<open>3/10\<close> differs from it by more than the
  rounding error of the division and of the constant, and the rounded product
  \<open>total_chars * 0.05\<close> lies strictly between the same two integers as the exact one
  (or equals it when it is an integer).
\<close>

definition is_low_quality_extraction :: "chartab \<Rightarrow> ustr \<Rightarrow> bool" where
  "is_low_quality_extraction U text =
     (if length (strip U text) < 50 then True
      else
        (let alpha_chars = length (filter (isalpha U) text);
             total_chars = length text
         in if total_chars > 0 \<and> (of_nat alpha_chars :: rat) / of_nat total_chars < 3 / 10
            then True
            else
              (let problem_chars =
                     count_char 65533 text + count_char 92 text + count_char 124 text
               in if (of_nat problem_chars :: rat) > of_nat total_chars * (5 / 100)
                  then True
                  else False)))"

section \<open>Processing one document and a batch\<close>

text \<open>
  What the processor sees of a PDF file: whether the path exists, \<open>Path(pdf_path).stem\<close>, and
  what \<open>extract_text_from_pdf\<close> and \<open>ocr_pdf\<close> give on it. Both methods catch every
  exception of the libraries they call and return the empty string instead, and both return
  their text stripped; that is the \<open>Inr\<close> case. The batch loop nevertheless wraps the calls in
  \<open>try\<close>/\<open>except Exception\<close>: \<open>Inl msg\<close> stands for a call that raises an exception with
  message \<open>msg\<close>.
\<close>

record pdf =
  path_exists :: bool
  stem :: ustr
  extract_text_from_pdf :: "ustr + ustr"
  ocr_pdf :: "ustr + ustr"

text \<open>The exceptions that reach the caller, one constructor for each \<open>raise\<close> of the source:
  \<open>FileNotFoundError\<close> (PDF file not found), the three \<open>ValueError\<close>s (no text could be
  extracted; no data could be structured; no structured data from any PDF), and an exception
  raised by a collaborator, which \<open>write_to_excel\<close> logs and raises again.\<close>

datatype error =
    FileNotFoundError
  | NoTextExtracted
  | NoDataStructured
  | NoDataFromAnyPdf
  | Raised ustr

text \<open>The spreadsheet writer behind \<open>write_to_excel\<close> (pandas and openpyxl): \<open>None\<close> when the
  file was written, \<open>Some msg\<close> when writing raised.\<close>

type_synonym writer = "attribute_row list \<Rightarrow> ustr option"

subsection \<open>\<open>process_pdf_to_excel\<close>\<close>

text \<open>The choice of the text, up to the check \<open>if not text.strip()\<close>. \<open>len(text.strip()) *
  1.5\<close> is exact in doubles.\<close>

definition choose_text_single :: "chartab \<Rightarrow> bool \<Rightarrow> pdf \<Rightarrow> ustr + ustr" where
  "choose_text_single U use_ocr d =
     (if use_ocr then ocr_pdf d
      else
        (case extract_text_from_pdf d of
           Inl e \<Rightarrow> Inl e
         | Inr text \<Rightarrow>
             if strip U text \<noteq> [] then
               (if length (strip U text) > 50 \<and> \<not> is_low_quality_extraction U text
                then Inr text
                else
                  (case ocr_pdf d of
                     Inl e \<Rightarrow> Inl e
                   | Inr ocr_text \<Rightarrow>
                       if strip U ocr_text \<noteq> [] \<and>
                          (of_nat (length (strip U ocr_text)) :: rat) >
                            of_nat (length (strip U text)) * (3 / 2)
                       then Inr ocr_text
                       else Inr text))
             else ocr_pdf d))"

definition process_pdf_to_excel :: "chartab \<Rightarrow> writer \<Rightarrow> bool \<Rightarrow> pdf \<Rightarrow> error + nat" where
  "process_pdf_to_excel U W use_ocr d =
     (if \<not> path_exists d then Inl FileNotFoundError
      else
        (case choose_text_single U use_ocr d of
           Inl e \<Rightarrow> Inl (Raised e)
         | Inr text \<Rightarrow>
             if strip U text = [] then Inl NoTextExtracted
             else
               (let structured_data = format_text_to_structure U text (Some (stem d));
                    structured_data =
                      (if structured_data = [] then generate_sample_attributes U (stem d)
                       else structured_data)
                in if structured_data = [] then Inl NoDataStructured
                   else
                     (case W structured_data of
                        Some e \<Rightarrow> Inl (Raised e)
                      | None \<Rightarrow> Inr (length structured_data)))))"

subsection \<open>\<open>process_multiple_pdfs_to_excel\<close>\<close>

datatype status =
  S_success | S_sample_data | S_failed_with_sample | S_error_with_sample | S_complete_failure

datatype processing_method =
  M_unknown | M_forced_ocr | M_text_extraction | M_ocr_fallback | M_failed | M_fallback | M_none

text \<open>An entry of \<open>processing_summary\<close>: the dictionary with the keys \<open>file\<close>, \<open>status\<close>,
  \<open>method\<close>, \<open>rows\<close>, \<open>text_length\<close> and, in the \<open>except\<close> branch only, \<open>error\<close>.\<close>

record processing_summary =
  s_file :: ustr
  s_status :: status
  s_method :: processing_method
  s_rows :: nat
  s_text_length :: nat
  s_error :: "ustr option"

text \<open>The choice of the text and of \<open>processing_method\<close> inside the \<open>try\<close> block.\<close>

definition choose_text_multi ::
    "chartab \<Rightarrow> bool \<Rightarrow> pdf \<Rightarrow> ustr + (ustr \<times> processing_method)" where
  "choose_text_multi U use_ocr d =
     (if use_ocr then
        (case ocr_pdf d of Inl e \<Rightarrow> Inl e | Inr text \<Rightarrow> Inr (text, M_forced_ocr))
      else
        (case extract_text_from_pdf d of
           Inl e \<Rightarrow> Inl e
         | Inr text \<Rightarrow>
             if strip U text \<noteq> [] \<and> length (strip U text) > 100 \<and>
                \<not> is_low_quality_extraction U text
             then Inr (text, M_text_extraction)
             else
               (case ocr_pdf d of
                  Inl e \<Rightarrow> Inl e
                | Inr ocr_text \<Rightarrow>
                    if strip U ocr_text \<noteq> [] then
                      (if strip U text = [] \<or>
                          (of_nat (length (strip U ocr_text)) :: rat) >
                            of_nat (length (strip U text)) * (3 / 2)
                       then Inr (ocr_text, M_ocr_fallback)
                       else Inr (text, M_text_extraction))
                    else Inr (text, M_failed))))"

text \<open>
  The state of the loop over \<open>pdf_paths\<close>: \<open>all_structured_data\<close> and \<open>processing_summary\<close>.
  One iteration: a missing file is skipped (\<open>continue\<close>); an exception in the \<open>try\<close> block
  leads to the \<open>except\<close> branch, which adds the sample rows. The handler around
  \<open>_generate_sample_attributes\<close> in that branch (status \<open>complete_failure\<close>) has no
  counterpart, since \<open>_generate_sample_attributes\<close> raises nothing.
\<close>

type_synonym batch_state = "attribute_row list \<times> processing_summary list"

definition add_sample :: "chartab \<Rightarrow> pdf \<Rightarrow> status \<Rightarrow> ustr option \<Rightarrow> batch_state \<Rightarrow> batch_state" where
  "add_sample U d st err bs =
     (let structured_data = generate_sample_attributes U (stem d)
      in if structured_data \<noteq> [] then
           (fst bs @ structured_data,
            snd bs @ [\<lparr> s_file = stem d, s_status = st, s_method = M_fallback,
                        s_rows = length structured_data, s_text_length = 0,
                        s_error = err \<rparr>])
         else bs)"

definition process_one :: "chartab \<Rightarrow> bool \<Rightarrow> pdf \<Rightarrow> batch_state \<Rightarrow> batch_state" where
  "process_one U use_ocr d bs =
     (if \<not> path_exists d then bs
      else
        (case choose_text_multi U use_ocr d of
           Inr (text, processing_method) \<Rightarrow>
             if strip U text \<noteq> [] then
               (let structured_data = format_text_to_structure U text (Some (stem d))
                in if structured_data \<noteq> [] then
                     (fst bs @ structured_data,
                      snd bs @ [\<lparr> s_file = stem d, s_status = S_success,
                                  s_method = processing_method,
                                  s_rows = length structured_data,
                                  s_text_length = length (strip U text),
                                  s_error = None \<rparr>])
                   else add_sample U d S_sample_data None bs)
             else add_sample U d S_failed_with_sample None bs
         | Inl e \<Rightarrow> add_sample U d S_error_with_sample (Some e) bs))"

definition process_all :: "chartab \<Rightarrow> bool \<Rightarrow> pdf list \<Rightarrow> batch_state" where
  "process_all U use_ocr pdfs = fold (process_one U use_ocr) pdfs ([], [])"

definition process_multiple_pdfs_to_excel ::
    "chartab \<Rightarrow> writer \<Rightarrow> bool \<Rightarrow> pdf list \<Rightarrow> error + nat" where
  "process_multiple_pdfs_to_excel U W use_ocr pdfs =
     (let all_structured_data = fst (process_all U use_ocr pdfs)
      in if all_structured_data = [] then Inl NoDataFromAnyPdf
         else
           (case W all_structured_data of
              Some e \<Rightarrow> Inl (Raised e)
            | None \<Rightarrow> Inr (length all_structured_data)))"

text \<open>What one document adds to the two lists of the loop.\<close>

definition document_rows :: "chartab \<Rightarrow> bool \<Rightarrow> pdf \<Rightarrow> attribute_row list" where
  "document_rows U use_ocr d = fst (process_one U use_ocr d ([], []))"

definition document_summary :: "chartab \<Rightarrow> bool \<Rightarrow> pdf \<Rightarrow> processing_summary list" where
  "document_summary U use_ocr d = snd (process_one U use_ocr d ([], []))"

section \<open>Invariant of the emitting loops\<close>

text \<open>The rows emitted so far are numbered \<open>1, 2, ...\<close> and the counter is the next number.\<close>

definition numbered :: "emit_state \<Rightarrow> bool" where
  "numbered st =
     (map position_number (fst st) = [1..snd st - 1] \<and> snd st = int (length (fst st)) + 1)"

section \<open>Position numbers\<close>

lemma numbered_init: "numbered ([], 1)"
  by (simp add: numbered_def)

lemma numbered_append:
  assumes "numbered (rs, pc)"
  shows "numbered (rs @ [mk_row floc pc n v d uo r], pc + 1)"
proof -
  from assms have pos: "map position_number rs = [1..pc - 1]"
    and len: "pc = int (length rs) + 1"
    by (simp_all add: numbered_def)
  from len have "1 \<le> pc" by simp
  then have up: "[1..pc] = [1..pc - 1] @ [pc]" by (rule upto_rec2)
  have "map position_number (rs @ [mk_row floc pc n v d uo r]) = [1..pc - 1] @ [pc]"
    using pos by (simp add: mk_row_def)
  with up have a: "map position_number (rs @ [mk_row floc pc n v d uo r]) = [1..pc + 1 - 1]"
    by simp
  have b: "pc + 1 = int (length (rs @ [mk_row floc pc n v d uo r])) + 1"
    using len by simp
  show ?thesis
    unfolding numbered_def fst_conv snd_conv using a b by (intro conjI)
qed

lemma numbered_template_step:
  "numbered st \<Longrightarrow> numbered (template_step floc r a st)"
  by (cases a; cases st) (simp add: numbered_append)

lemma numbered_scan_step:
  "numbered st \<Longrightarrow> numbered (scan_step U floc r line st)"
  by (cases st) (simp add: scan_step_def Let_def numbered_append split: option.splits prod.splits)

lemma numbered_fold:
  assumes "\<And>x st. numbered st \<Longrightarrow> numbered (f x st)"
  shows "numbered st \<Longrightarrow> numbered (fold f xs st)"
  by (induction xs arbitrary: st) (simp_all add: assms)

lemma numbered_format:
  "numbered (fold (scan_step U floc r) ls (emit_templates floc r attrs ([], 1)))"
  unfolding emit_templates_def
  by (intro numbered_fold numbered_scan_step numbered_template_step numbered_init)

section \<open>The rows of the template phase\<close>

lemma templates_all_emitted:
  "map characteristic_name (fst (emit_templates floc r equipment_attributes ([], 1))) =
     map fst equipment_attributes \<and>
   length (fst (emit_templates floc r equipment_attributes ([], 1))) = 15"
  by (simp add: emit_templates_def equipment_attributes_def mk_row_def u_def)

lemma scan_step_extends:
  "\<exists>new. fst (scan_step U floc r line st) = fst st @ new"
  by (cases st) (simp add: scan_step_def Let_def split: option.splits prod.splits)

lemma scan_fold_extends:
  "\<exists>new. fst (fold (scan_step U floc r) ls st) = fst st @ new"
proof (induction ls arbitrary: st)
  case Nil
  then show ?case by simp
next
  case (Cons l ls)
  obtain n1 where n1: "fst (scan_step U floc r l st) = fst st @ n1"
    using scan_step_extends by blast
  obtain n2 where "fst (fold (scan_step U floc r) ls (scan_step U floc r l st)) =
      fst (scan_step U floc r l st) @ n2"
    using Cons.IH by blast
  with n1 show ?case by simp
qed

lemma format_rows_shape:
  assumes "strip U text \<noteq> []"
  shows "\<exists>floc r new. format_text_to_structure U text pdf_name =
           fst (emit_templates floc r equipment_attributes ([], 1)) @ new"
  using assms scan_fold_extends
  by (simp add: format_text_to_structure_def Let_def) blast

section \<open>Facts about \<open>strip\<close> and the quality classifier\<close>

lemma length_strip_le: "length (strip U s) \<le> length s"
proof -
  have "length (dropWhile (isspace U) (rev (dropWhile (isspace U) s))) \<le>
        length (rev (dropWhile (isspace U) s))"
    by (rule length_dropWhile_le)
  also have "\<dots> \<le> length s" by (simp add: length_dropWhile_le)
  finally show ?thesis by (simp add: strip_def)
qed

lemma filter_dropWhile_disjoint:
  assumes "\<And>c. a c \<Longrightarrow> \<not> sp c"
  shows "filter a (dropWhile sp xs) = filter a xs"
  using assms by (induction xs) auto

lemma alpha_le_strip:
  assumes "\<And>c. isalpha U c \<Longrightarrow> \<not> isspace U c"
  shows "length (filter (isalpha U) s) \<le> length (strip U s)"
proof -
  have "filter (isalpha U) (strip U s) =
        rev (filter (isalpha U) (dropWhile (isspace U) (rev (dropWhile (isspace U) s))))"
    by (simp add: strip_def rev_filter)
  also have "\<dots> = rev (filter (isalpha U) (rev (dropWhile (isspace U) s)))"
    using assms by (simp add: filter_dropWhile_disjoint)
  also have "\<dots> = filter (isalpha U) (dropWhile (isspace U) s)"
    by (simp add: rev_filter)
  also have "\<dots> = filter (isalpha U) s"
    using assms by (simp add: filter_dropWhile_disjoint)
  finally have "length (filter (isalpha U) s) = length (filter (isalpha U) (strip U s))"
    by simp
  then show ?thesis by simp
qed

lemma low_quality_iff:
  "is_low_quality_extraction U text \<longleftrightarrow>
     length (strip U text) < 50
     \<or> (of_nat (length (filter (isalpha U) text)) :: rat) / of_nat (length text) < 3 / 10
     \<or> (of_nat (count_char 65533 text + count_char 92 text + count_char 124 text) :: rat)
          > of_nat (length text) * (5 / 100)"
proof (cases "length (strip U text) < 50")
  case True
  then show ?thesis by (simp add: is_low_quality_extraction_def)
next
  case False
  have "length (strip U text) \<le> length text" by (rule length_strip_le)
  with False have "0 < length text" by linarith
  with False show ?thesis by (simp add: is_low_quality_extraction_def Let_def)
qed

section \<open>Facts about the batch loop\<close>

lemma ratio_three_halves:
  "((of_nat b :: rat) * (3 / 2) < of_nat a) = (3 * b < 2 * a)"
proof -
  have "((of_nat b :: rat) * (3 / 2) < of_nat a) = ((of_nat (3 * b) :: rat) < of_nat (2 * a))"
    by (simp add: field_simps)
  also have "\<dots> = (3 * b < 2 * a)" by (rule of_nat_less_iff)
  finally show ?thesis .
qed

lemma generate_sample_length: "length (generate_sample_attributes U n) = 15"
  by (simp add: generate_sample_attributes_def sample_attributes_def)

lemma generate_sample_nonempty: "generate_sample_attributes U n \<noteq> []"
  using generate_sample_length [of U n] by auto

lemma add_sample_eq:
  "add_sample U d st err bs =
     (fst bs @ generate_sample_attributes U (stem d),
      snd bs @ [\<lparr> s_file = stem d, s_status = st, s_method = M_fallback, s_rows = 15,
                  s_text_length = 0, s_error = err \<rparr>])"
  by (simp add: add_sample_def Let_def generate_sample_nonempty generate_sample_length)

lemma process_one_appends:
  "process_one U use_ocr d bs =
     (fst bs @ document_rows U use_ocr d, snd bs @ document_summary U use_ocr d)"
  by (simp add: process_one_def document_rows_def document_summary_def add_sample_eq Let_def
           split: sum.splits prod.splits)

lemma process_fold_appends:
  "fold (process_one U use_ocr) ds bs =
     (fst bs @ concat (map (document_rows U use_ocr) ds),
      snd bs @ concat (map (document_summary U use_ocr) ds))"
proof (induction ds arbitrary: bs)
  case Nil
  then show ?case by simp
next
  case (Cons d ds)
  have "fold (process_one U use_ocr) (d # ds) bs =
        fold (process_one U use_ocr) ds
          (fst bs @ document_rows U use_ocr d, snd bs @ document_summary U use_ocr d)"
    by (simp add: process_one_appends [of U use_ocr d bs])
  then show ?case by (simp add: Cons.IH)
qed

lemma process_all_concat:
  "process_all U use_ocr ds =
     (concat (map (document_rows U use_ocr) ds), concat (map (document_summary U use_ocr) ds))"
  by (simp add: process_all_def process_fold_appends)

lemma format_at_least_fifteen:
  assumes "strip U text \<noteq> []"
  shows "15 \<le> length (format_text_to_structure U text pdf_name)"
proof -
  obtain floc r new where
    "format_text_to_structure U text pdf_name =
       fst (emit_templates floc r equipment_attributes ([], 1)) @ new"
    using format_rows_shape [OF assms] by blast
  then show ?thesis using templates_all_emitted [of floc r] by simp
qed

lemma format_nonempty:
  "strip U text \<noteq> [] \<Longrightarrow> format_text_to_structure U text pdf_name \<noteq> []"
  using format_at_least_fifteen [of U "text" pdf_name] by auto

lemma existing_document_rows:
  assumes "path_exists d"
  shows "document_rows U use_ocr d \<noteq> []"
  using assms
  by (simp add: document_rows_def process_one_def add_sample_eq Let_def
        generate_sample_nonempty format_nonempty split: sum.splits prod.splits)

section \<open>Properties of the pipeline\<close>

text \<open>
  C4. In the template phase a template attribute is skipped, that is no row is emitted and
  the position counter stays as it is, exactly when its value is empty and the counter at
  that moment is a multiple of 3; every other attribute yields exactly one row, numbered
  with the counter, and advances the counter by one. Stated for the loop over any list of
  attributes, at the attribute that follows any prefix \<open>pre\<close>; the second part says that
  the state of the loop is left as it was in the first case only.
\<close>

theorem template_skip_rule:
  "emit_templates floc doc_ref (pre @ [(attr_name, attr_value, descr, uom)]) st0 =
     (case emit_templates floc doc_ref pre st0 of
        (structured_data, pc) \<Rightarrow>
          if attr_value = [] \<and> pc mod 3 = 0 then (structured_data, pc)
          else (structured_data @ [mk_row floc pc attr_name attr_value descr uom doc_ref],
                pc + 1))
   \<and> (emit_templates floc doc_ref (pre @ [(attr_name, attr_value, descr, uom)]) st0 =
        emit_templates floc doc_ref pre st0
      \<longleftrightarrow> attr_value = [] \<and> snd (emit_templates floc doc_ref pre st0) mod 3 = 0)"
proof -
  obtain sd pc where st: "emit_templates floc doc_ref pre st0 = (sd, pc)"
    by (cases "emit_templates floc doc_ref pre st0")
  have step: "emit_templates floc doc_ref (pre @ [(attr_name, attr_value, descr, uom)]) st0 =
      template_step floc doc_ref (attr_name, attr_value, descr, uom) (sd, pc)"
    using st by (simp add: emit_templates_def)
  show ?thesis unfolding step st by simp
qed

theorem template_skip_rule_witness:
  "emit_templates [] []
     [(u ''A'', u ''1'', [], []), (u ''B'', u ''2'', [], []), (u ''C'', [], [], [])] ([], 1) =
     ([mk_row [] 1 (u ''A'') (u ''1'') [] [] [], mk_row [] 2 (u ''B'') (u ''2'') [] [] []], 3)
   \<and> emit_templates [] [] [(u ''A'', u ''1'', [], []), (u ''C'', [], [], [])] ([], 1) =
     ([mk_row [] 1 (u ''A'') (u ''1'') [] [] [], mk_row [] 2 (u ''C'') [] [] [] []], 3)"
proof -
  have a: "emit_templates [] [] [(u ''A'', u ''1'', [], []), (u ''B'', u ''2'', [], [])] ([], 1) =
     ([mk_row [] 1 (u ''A'') (u ''1'') [] [] [], mk_row [] 2 (u ''B'') (u ''2'') [] [] []], 3)"
    by (simp add: emit_templates_def u_def)
  have b: "emit_templates [] [] [(u ''A'', u ''1'', [], [])] ([], 1) =
     ([mk_row [] 1 (u ''A'') (u ''1'') [] [] []], 2)"
    by (simp add: emit_templates_def u_def)
  show ?thesis
    using template_skip_rule [of "[]" "[]" "[(u ''A'', u ''1'', [], []), (u ''B'', u ''2'', [], [])]"
             "u ''C''" "[]" "[]" "[]" "([], 1)"]
          template_skip_rule [of "[]" "[]" "[(u ''A'', u ''1'', [], [])]"
             "u ''C''" "[]" "[]" "[]" "([], 1)"]
    by (simp add: a b)
qed

text \<open>
  C5. For every text and every document name, the position numbers of the rows that
  \<open>format_text_to_structure\<close> returns are exactly \<open>1, 2, ..., n\<close> in emission order, \<open>n\<close>
  being the number of rows: they start at 1, increase by one from row to row across the
  template phase and the line-scanning phase, and a skipped template attribute uses up no
  number (second part: the same holds for the template loop over any list of attributes).
\<close>

theorem position_numbers_sequential:
  "map position_number (format_text_to_structure U text pdf_name) =
     [1..int (length (format_text_to_structure U text pdf_name))]
   \<and> map position_number (fst (emit_templates floc r attrs ([], 1))) =
     [1..int (length (fst (emit_templates floc r attrs ([], 1))))]"
proof
  show "map position_number (format_text_to_structure U text pdf_name) =
     [1..int (length (format_text_to_structure U text pdf_name))]"
  proof (cases "strip U text = []")
    case True
    then show ?thesis by (simp add: format_text_to_structure_def)
  next
    case False
    let ?ls = "text_lines U text"
    let ?r = "doc_ref_from_lines U (take 20 ?ls) (doc_ref_from_name U pdf_name)"
    let ?st = "fold (scan_step U (find_location U ?ls) ?r) ?ls
                 (emit_templates (find_location U ?ls) ?r equipment_attributes ([], 1))"
    have "numbered ?st" by (rule numbered_format)
    then have "map position_number (fst ?st) = [1..int (length (fst ?st))]"
      by (simp add: numbered_def)
    with False show ?thesis by (simp add: format_text_to_structure_def Let_def)
  qed
next
  have "numbered (emit_templates floc r attrs ([], 1))"
    unfolding emit_templates_def
    by (intro numbered_fold numbered_template_step numbered_init)
  then show "map position_number (fst (emit_templates floc r attrs ([], 1))) =
     [1..int (length (fst (emit_templates floc r attrs ([], 1))))]"
    by (simp add: numbered_def)
qed

theorem position_numbers_sequential_witness:
  "map position_number
     (format_text_to_structure ascii_tab (u ''range 0-50 ppm'') (Some (u ''doc''))) =
   [1, 2, 3, 4, 5, 6, 7, 8, 9, 10, 11, 12, 13, 14, 15, 16]"
proof -
  have "length (format_text_to_structure ascii_tab (u ''range 0-50 ppm'') (Some (u ''doc''))) = 16"
    by code_simp
  with position_numbers_sequential [of ascii_tab "u ''range 0-50 ppm''" "Some (u ''doc'')"]
  have "map position_number
     (format_text_to_structure ascii_tab (u ''range 0-50 ppm'') (Some (u ''doc''))) = [1..16]"
    by simp
  also have "[1..16] = [1, 2, 3, 4, 5, 6, 7, 8, 9, 10, 11, 12, 13, 14, 15, (16::int)]"
    by code_simp
  finally show ?thesis .
qed

text \<open>
  C6. \<open>_is_low_quality_extraction\<close> answers "low quality" exactly when the trimmed length
  of the text is below 50, or the ratio of alphabetic characters to all (untrimmed)
  characters is below 0.30, or the number of replacement characters (U+FFFD), backslashes
  and vertical bars together exceeds 5% of the length; the rules are tried in this order and
  the first that applies decides. In particular every text of length 10 is low quality, and a
  text of length 1000 with 800 alphabetic characters and none of the three problem
  characters is not (alphabetic characters are not white space, so the trimmed text keeps
  all 800 of them).
\<close>

theorem quality_classifier_rules:
  "(is_low_quality_extraction U text \<longleftrightarrow>
     length (strip U text) < 50
     \<or> (of_nat (length (filter (isalpha U) text)) :: rat) / of_nat (length text) < 3 / 10
     \<or> (of_nat (count_char 65533 text + count_char 92 text + count_char 124 text) :: rat)
          > of_nat (length text) * (5 / 100))
   \<and> (length text = 10 \<longrightarrow> is_low_quality_extraction U text)
   \<and> ((\<forall>c. isalpha U c \<longrightarrow> \<not> isspace U c) \<and> length text = 1000 \<and>
        length (filter (isalpha U) text) = 800 \<and>
        count_char 65533 text + count_char 92 text + count_char 124 text = 0
        \<longrightarrow> \<not> is_low_quality_extraction U text)"
proof (intro conjI impI)
  show "is_low_quality_extraction U text \<longleftrightarrow>
     length (strip U text) < 50
     \<or> (of_nat (length (filter (isalpha U) text)) :: rat) / of_nat (length text) < 3 / 10
     \<or> (of_nat (count_char 65533 text + count_char 92 text + count_char 124 text) :: rat)
          > of_nat (length text) * (5 / 100)"
    by (rule low_quality_iff)
next
  assume "length text = 10"
  moreover have "length (strip U text) \<le> length text" by (rule length_strip_le)
  ultimately have "length (strip U text) < 50" by simp
  then show "is_low_quality_extraction U text" by (simp add: is_low_quality_extraction_def)
next
  assume h: "(\<forall>c. isalpha U c \<longrightarrow> \<not> isspace U c) \<and> length text = 1000 \<and>
        length (filter (isalpha U) text) = 800 \<and>
        count_char 65533 text + count_char 92 text + count_char 124 text = 0"
  then have "length (filter (isalpha U) text) \<le> length (strip U text)"
    by (intro alpha_le_strip) blast
  with h have "\<not> length (strip U text) < 50" by simp
  with h show "\<not> is_low_quality_extraction U text"
    by (simp add: low_quality_iff)
qed

theorem quality_classifier_rules_witness:
  "is_low_quality_extraction ascii_tab (u ''0123456789'') \<and>
   \<not> is_low_quality_extraction ascii_tab (replicate 800 97 @ replicate 200 49)"
proof -
  have a: "length (u ''0123456789'') = 10" by (simp add: u_def)
  have b: "\<forall>c. isalpha ascii_tab c \<longrightarrow> \<not> isspace ascii_tab c"
    by (auto simp add: ascii_tab_def)
  have c: "length (replicate 800 97 @ replicate 200 (49::nat)) = 1000" by simp
  have d: "length (filter (isalpha ascii_tab) (replicate 800 97 @ replicate 200 49)) = 800"
    by (simp add: ascii_tab_def)
  have e: "count_char 65533 (replicate 800 97 @ replicate 200 49) +
           count_char 92 (replicate 800 97 @ replicate 200 49) +
           count_char 124 (replicate 800 97 @ replicate 200 49) = 0"
    by (simp add: count_char_def)
  from quality_classifier_rules [of ascii_tab "u ''0123456789''"] a
  have 1: "is_low_quality_extraction ascii_tab (u ''0123456789'')" by blast
  from quality_classifier_rules [of ascii_tab "replicate 800 97 @ replicate 200 49"] b c d e
  have 2: "\<not> is_low_quality_extraction ascii_tab (replicate 800 97 @ replicate 200 49)"
    by blast
  from 1 2 show ?thesis ..
qed

text \<open>
  C3, as the code has it. In automatic mode, when the direct text fails the quality test and
  OCR is attempted, the OCR text is kept (method \<open>ocr_fallback\<close> in the batch path) exactly
  when it is not empty and either the direct text is empty or the trimmed length of the OCR
  text is more than 1.5 times the trimmed length of the direct text. Otherwise the direct
  text is kept, low quality or not; the batch path then records the method
  \<open>text_extraction\<close> when the OCR text is not empty and the method \<open>failed\<close> when it is
  empty. The single-document path records no method, and it replaces an empty direct text by
  the OCR text whatever that is. With trimmed lengths 40 and 45 the direct text is kept, with
  method \<open>text_extraction\<close>.
\<close>

theorem ocr_fallback_rule:
  assumes "extract_text_from_pdf d = Inr text" and "ocr_pdf d = Inr ocr_text"
  shows
    "(\<not> (strip U text \<noteq> [] \<and> length (strip U text) > 100 \<and>
          \<not> is_low_quality_extraction U text) \<longrightarrow>
        choose_text_multi U False d =
          Inr (if strip U ocr_text \<noteq> [] \<and>
                  (strip U text = [] \<or>
                   3 * length (strip U text) < 2 * length (strip U ocr_text))
               then (ocr_text, M_ocr_fallback)
               else if strip U ocr_text \<noteq> [] then (text, M_text_extraction)
               else (text, M_failed)))
     \<and> (\<not> (strip U text \<noteq> [] \<and> length (strip U text) > 50 \<and>
          \<not> is_low_quality_extraction U text) \<longrightarrow>
        choose_text_single U False d =
          Inr (if strip U text = [] \<or>
                  (strip U ocr_text \<noteq> [] \<and>
                   3 * length (strip U text) < 2 * length (strip U ocr_text))
               then ocr_text else text))
     \<and> (length (strip U text) = 40 \<and> length (strip U ocr_text) = 45 \<longrightarrow>
        choose_text_multi U False d = Inr (text, M_text_extraction) \<and>
        choose_text_single U False d = Inr text)"
proof (intro conjI impI)
  assume "\<not> (strip U text \<noteq> [] \<and> length (strip U text) > 100 \<and>
          \<not> is_low_quality_extraction U text)"
  with assms show "choose_text_multi U False d =
          Inr (if strip U ocr_text \<noteq> [] \<and>
                  (strip U text = [] \<or>
                   3 * length (strip U text) < 2 * length (strip U ocr_text))
               then (ocr_text, M_ocr_fallback)
               else if strip U ocr_text \<noteq> [] then (text, M_text_extraction)
               else (text, M_failed))"
    unfolding choose_text_multi_def ratio_three_halves by auto
next
  assume "\<not> (strip U text \<noteq> [] \<and> length (strip U text) > 50 \<and>
          \<not> is_low_quality_extraction U text)"
  with assms show "choose_text_single U False d =
          Inr (if strip U text = [] \<or>
                  (strip U ocr_text \<noteq> [] \<and>
                   3 * length (strip U text) < 2 * length (strip U ocr_text))
               then ocr_text else text)"
    unfolding choose_text_single_def ratio_three_halves by auto
next
  assume h: "length (strip U text) = 40 \<and> length (strip U ocr_text) = 45"
  then have ne: "strip U text \<noteq> []" "strip U ocr_text \<noteq> []" by auto
  from assms h ne show "choose_text_multi U False d = Inr (text, M_text_extraction)"
    unfolding choose_text_multi_def ratio_three_halves by auto
  from assms h ne show "choose_text_single U False d = Inr text"
    unfolding choose_text_single_def ratio_three_halves by auto
qed

theorem ocr_fallback_rule_witness:
  "choose_text_multi ascii_tab False
     \<lparr> path_exists = True, stem = u ''doc'',
       extract_text_from_pdf = Inr (replicate 40 97), ocr_pdf = Inr (replicate 45 98) \<rparr> =
     Inr (replicate 40 97, M_text_extraction) \<and>
   choose_text_single ascii_tab False
     \<lparr> path_exists = True, stem = u ''doc'',
       extract_text_from_pdf = Inr (replicate 40 97), ocr_pdf = Inr (replicate 45 98) \<rparr> =
     Inr (replicate 40 97)"
proof -
  let ?d = "\<lparr> path_exists = True, stem = u ''doc'',
       extract_text_from_pdf = Inr (replicate 40 97), ocr_pdf = Inr (replicate 45 98) \<rparr>"
  have a: "extract_text_from_pdf ?d = Inr (replicate 40 97)" by simp
  have b: "ocr_pdf ?d = Inr (replicate 45 98)" by simp
  have c: "length (strip ascii_tab (replicate 40 97)) = 40" by code_simp
  have e: "length (strip ascii_tab (replicate 45 98)) = 45" by code_simp
  from ocr_fallback_rule [OF a b, of ascii_tab] c e show ?thesis by blast
qed

text \<open>
  The method is not always \<open>text_extraction\<close> when the direct text is kept: a direct text of
  40 letters and an empty OCR text give the method \<open>failed\<close> in the batch path.
\<close>

theorem ocr_empty_method_failed:
  "choose_text_multi ascii_tab False
     \<lparr> path_exists = True, stem = u ''doc'',
       extract_text_from_pdf = Inr (replicate 40 97), ocr_pdf = Inr [] \<rparr> =
     Inr (replicate 40 97, M_failed)"
  by code_simp

text \<open>
  C1. The document name \<open>P11569-11-99-40-2619\<close> and a text without any reference pattern:
  the pattern takes four groups of digits only, so the reference found in the name is
  \<open>P11569-11-99-40\<close> and every row carries \<open>P11569-11-99-40-1\<close>, not
  \<open>P11569-11-99-40-2619-1\<close>.
\<close>

theorem name_reference_truncated:
  "list_all (\<lambda>line. re_search ascii_tab doc_ref_pattern line = None)
     (take 20 (text_lines ascii_tab (u ''abc''))) \<and>
   map document_reference
     (format_text_to_structure ascii_tab (u ''abc'') (Some (u ''P11569-11-99-40-2619''))) =
   replicate 15 (u ''P11569-11-99-40-1'')"
  by code_simp

text \<open>
  C2. Two lines that each hold a location code: the first line matches the first pattern with
  \<open>11-18-ABCD-1234\<close>, yet every row carries the code of the second line, since \<open>break\<close>
  leaves only the loop over the patterns and the loop over the lines goes on.
\<close>

theorem last_location_wins:
  "match_location ascii_tab location_patterns (u ''11-18-ABCD-1234'') =
     Some (u ''11-18-ABCD-1234'') \<and>
   map functional_location
     (format_text_to_structure ascii_tab
        (u ''11-18-ABCD-1234'' @ [10] @ u ''22-33-WXYZ-5678'') None) =
   replicate 15 (u ''22-33-WXYZ-5678'')"
  by code_simp

text \<open>
  C7. For a document that exists and whose direct extraction and OCR both give empty text,
  \<open>process_pdf_to_excel\<close> fails with the error "no text could be extracted", whereas the
  batch loop goes on: it adds the sample rows and a summary entry with status
  \<open>failed_with_sample\<close> for that document, the entry is in the summary of every batch that
  contains the document, and the batch does not fail with "no structured data".
\<close>

theorem empty_text_outcome:
  assumes "path_exists d"
    and "extract_text_from_pdf d = Inr text" and "strip U text = []"
    and "ocr_pdf d = Inr ocr_text" and "strip U ocr_text = []"
  shows
    "process_pdf_to_excel U W use_ocr d = Inl NoTextExtracted
     \<and> process_one U use_ocr d bs =
         (fst bs @ generate_sample_attributes U (stem d),
          snd bs @ [\<lparr> s_file = stem d, s_status = S_failed_with_sample,
                      s_method = M_fallback, s_rows = 15, s_text_length = 0,
                      s_error = None \<rparr>])
     \<and> \<lparr> s_file = stem d, s_status = S_failed_with_sample, s_method = M_fallback,
          s_rows = 15, s_text_length = 0, s_error = None \<rparr>
         \<in> set (snd (process_all U use_ocr (before @ d # after)))
     \<and> process_multiple_pdfs_to_excel U W use_ocr (before @ d # after) \<noteq> Inl NoDataFromAnyPdf"
proof -
  have single: "choose_text_single U use_ocr d = Inr ocr_text"
    using assms by (simp add: choose_text_single_def)
  have multi: "\<exists>t m. choose_text_multi U use_ocr d = Inr (t, m) \<and> strip U t = []"
    using assms by (simp add: choose_text_multi_def)
  have 1: "process_pdf_to_excel U W use_ocr d = Inl NoTextExtracted"
    using assms single by (simp add: process_pdf_to_excel_def)
  have 2: "process_one U use_ocr d bs =
         (fst bs @ generate_sample_attributes U (stem d),
          snd bs @ [\<lparr> s_file = stem d, s_status = S_failed_with_sample,
                      s_method = M_fallback, s_rows = 15, s_text_length = 0,
                      s_error = None \<rparr>])" for bs
    using assms(1) multi by (auto simp add: process_one_def add_sample_eq)
  have rows: "document_rows U use_ocr d = generate_sample_attributes U (stem d)"
    and summ: "document_summary U use_ocr d =
        [\<lparr> s_file = stem d, s_status = S_failed_with_sample, s_method = M_fallback,
           s_rows = 15, s_text_length = 0, s_error = None \<rparr>]"
    by (simp_all add: document_rows_def document_summary_def 2)
  have 3: "\<lparr> s_file = stem d, s_status = S_failed_with_sample, s_method = M_fallback,
          s_rows = 15, s_text_length = 0, s_error = None \<rparr>
         \<in> set (snd (process_all U use_ocr (before @ d # after)))"
    by (simp add: process_all_concat summ)
  have "fst (process_all U use_ocr (before @ d # after)) \<noteq> []"
    by (simp add: process_all_concat rows generate_sample_nonempty)
  then have 4: "process_multiple_pdfs_to_excel U W use_ocr (before @ d # after)
      \<noteq> Inl NoDataFromAnyPdf"
    by (simp add: process_multiple_pdfs_to_excel_def Let_def split: option.splits)
  from 1 2 3 4 show ?thesis by blast
qed

theorem empty_text_outcome_witness:
  "process_pdf_to_excel ascii_tab (\<lambda>data. None) False
     \<lparr> path_exists = True, stem = u ''scan'', extract_text_from_pdf = Inr [],
       ocr_pdf = Inr [] \<rparr> = Inl NoTextExtracted
   \<and> map s_status (snd (process_all ascii_tab False
        [\<lparr> path_exists = True, stem = u ''scan'', extract_text_from_pdf = Inr [],
           ocr_pdf = Inr [] \<rparr>])) = [S_failed_with_sample]"
proof -
  let ?d = "\<lparr> path_exists = True, stem = u ''scan'', extract_text_from_pdf = Inr [],
       ocr_pdf = Inr [] \<rparr>"
  have a: "path_exists ?d" by simp
  have b: "extract_text_from_pdf ?d = Inr []" by simp
  have c: "ocr_pdf ?d = Inr []" by simp
  have e: "strip ascii_tab [] = []" by (simp add: strip_def)
  note w = empty_text_outcome [OF a b e c e, of "\<lambda>data. None" False "([], [])" "[]" "[]"]
  from w have 1: "process_pdf_to_excel ascii_tab (\<lambda>data. None) False ?d = Inl NoTextExtracted"
    by blast
  from w have "process_one ascii_tab False ?d ([], []) =
      ([] @ generate_sample_attributes ascii_tab (stem ?d),
       [] @ [\<lparr> s_file = stem ?d, s_status = S_failed_with_sample,
                      s_method = M_fallback, s_rows = 15, s_text_length = 0,
                      s_error = None \<rparr>])"
    by simp
  then have 2: "map s_status (snd (process_all ascii_tab False [?d])) = [S_failed_with_sample]"
    by (simp add: process_all_def)
  from 1 2 show ?thesis ..
qed

text \<open>
  C8, as the code has it. \<open>process_multiple_pdfs_to_excel\<close> raises its own error, "no
  structured data could be created from any PDF", exactly when the rows accumulated over
  all documents (sample rows included) are empty; the only other error that reaches the
  caller is one that the spreadsheet writer raises, which \<open>write_to_excel\<close> raises again. The
  accumulated rows are the concatenation of what each document contributes by itself, so the
  loop always reaches the remaining documents; every existing document contributes rows; and
  an exception while one document is processed is caught and replaced by the sample rows
  with status \<open>error_with_sample\<close>.
\<close>

theorem batch_error_rule:
  "(process_multiple_pdfs_to_excel U W use_ocr pdfs = Inl NoDataFromAnyPdf
      \<longleftrightarrow> fst (process_all U use_ocr pdfs) = [])
   \<and> ((\<exists>e. process_multiple_pdfs_to_excel U W use_ocr pdfs = Inl e)
      \<longleftrightarrow> fst (process_all U use_ocr pdfs) = [] \<or>
          W (fst (process_all U use_ocr pdfs)) \<noteq> None)
   \<and> fst (process_all U use_ocr pdfs) = concat (map (document_rows U use_ocr) pdfs)
   \<and> (\<forall>d \<in> set pdfs. path_exists d \<longrightarrow> fst (process_all U use_ocr pdfs) \<noteq> [])
   \<and> (\<forall>d e. path_exists d \<and> choose_text_multi U use_ocr d = Inl e \<longrightarrow>
         document_rows U use_ocr d = generate_sample_attributes U (stem d) \<and>
         map s_status (document_summary U use_ocr d) = [S_error_with_sample])"
proof (intro conjI)
  show "process_multiple_pdfs_to_excel U W use_ocr pdfs = Inl NoDataFromAnyPdf
      \<longleftrightarrow> fst (process_all U use_ocr pdfs) = []"
    by (simp add: process_multiple_pdfs_to_excel_def Let_def split: option.splits)
  show "(\<exists>e. process_multiple_pdfs_to_excel U W use_ocr pdfs = Inl e)
      \<longleftrightarrow> fst (process_all U use_ocr pdfs) = [] \<or>
          W (fst (process_all U use_ocr pdfs)) \<noteq> None"
    by (auto simp add: process_multiple_pdfs_to_excel_def Let_def split: option.splits)
  show "fst (process_all U use_ocr pdfs) = concat (map (document_rows U use_ocr) pdfs)"
    by (simp add: process_all_concat)
  show "\<forall>d \<in> set pdfs. path_exists d \<longrightarrow> fst (process_all U use_ocr pdfs) \<noteq> []"
    using existing_document_rows by (auto simp add: process_all_concat)
  show "\<forall>d e. path_exists d \<and> choose_text_multi U use_ocr d = Inl e \<longrightarrow>
         document_rows U use_ocr d = generate_sample_attributes U (stem d) \<and>
         map s_status (document_summary U use_ocr d) = [S_error_with_sample]"
    by (simp add: document_rows_def document_summary_def process_one_def add_sample_eq)
qed

theorem batch_error_rule_witness:
  "process_multiple_pdfs_to_excel ascii_tab (\<lambda>data. None) False
     [\<lparr> path_exists = True, stem = u ''a'', extract_text_from_pdf = Inl (u ''boom''),
        ocr_pdf = Inr [] \<rparr>] \<noteq> Inl NoDataFromAnyPdf
   \<and> map s_status (document_summary ascii_tab False
        \<lparr> path_exists = True, stem = u ''a'', extract_text_from_pdf = Inl (u ''boom''),
          ocr_pdf = Inr [] \<rparr>) = [S_error_with_sample]"
proof -
  let ?d = "\<lparr> path_exists = True, stem = u ''a'', extract_text_from_pdf = Inl (u ''boom''),
        ocr_pdf = Inr [] \<rparr>"
  have a: "path_exists ?d" by simp
  have b: "?d \<in> set [?d]" by simp
  have c: "choose_text_multi ascii_tab False ?d = Inl (u ''boom'')"
    by (simp add: choose_text_multi_def)
  note w = batch_error_rule [of ascii_tab "\<lambda>data. None" False "[?d]"]
  from w a b have "fst (process_all ascii_tab False [?d]) \<noteq> []" by blast
  with w have 1: "process_multiple_pdfs_to_excel ascii_tab (\<lambda>data. None) False [?d]
      \<noteq> Inl NoDataFromAnyPdf" by blast
  from w a c have 2: "map s_status (document_summary ascii_tab False ?d) = [S_error_with_sample]"
    by blast
  from 1 2 show ?thesis ..
qed

text \<open>
  The batch can raise with rows at hand: one document with the text \<open>abc\<close> gives 15 rows,
  and when the spreadsheet writer then raises, so does the batch.
\<close>

theorem writer_error_with_rows:
  "length (fst (process_all ascii_tab False
       [\<lparr> path_exists = True, stem = u ''a'', extract_text_from_pdf = Inr (u ''abc''),
          ocr_pdf = Inr [] \<rparr>])) = 15
   \<and> process_multiple_pdfs_to_excel ascii_tab (\<lambda>data. Some (u ''Permission denied'')) False
       [\<lparr> path_exists = True, stem = u ''a'', extract_text_from_pdf = Inr (u ''abc''),
          ocr_pdf = Inr [] \<rparr>] = Inl (Raised (u ''Permission denied''))"
  by code_simp

text \<open>
  C9. For every text whose trimmed form is not empty, \<open>format_text_to_structure\<close> returns at
  least 15 rows, and the first 15 are the entries of the template list in order: the only
  entry with an empty value (\<open>ENVIRONT\<close>, the fifth) is reached with the position counter at
  5, which is no multiple of 3. Hence \<open>process_pdf_to_excel\<close> never raises "no data could be
  structured", and once the chosen text is not empty it hands the rows of
  \<open>format_text_to_structure\<close>, not the sample rows, to the writer.
\<close>

theorem template_rows_always_emitted:
  "(strip U text \<noteq> [] \<longrightarrow>
      15 \<le> length (format_text_to_structure U text pdf_name) \<and>
      map characteristic_name (take 15 (format_text_to_structure U text pdf_name)) =
        map fst equipment_attributes)
   \<and> snd (emit_templates floc r (take 4 equipment_attributes) ([], 1)) = 5
   \<and> process_pdf_to_excel U W use_ocr d \<noteq> Inl NoDataStructured
   \<and> (path_exists d \<and> choose_text_single U use_ocr d = Inr text \<and> strip U text \<noteq> [] \<longrightarrow>
        process_pdf_to_excel U W use_ocr d =
          (case W (format_text_to_structure U text (Some (stem d))) of
             Some e \<Rightarrow> Inl (Raised e)
           | None \<Rightarrow> Inr (length (format_text_to_structure U text (Some (stem d))))))"
proof (intro conjI impI)
  assume ne: "strip U text \<noteq> []"
  obtain fl rf new where shape:
    "format_text_to_structure U text pdf_name =
       fst (emit_templates fl rf equipment_attributes ([], 1)) @ new"
    using format_rows_shape [OF ne] by blast
  show "15 \<le> length (format_text_to_structure U text pdf_name)"
    using ne by (rule format_at_least_fifteen)
  show "map characteristic_name (take 15 (format_text_to_structure U text pdf_name)) =
        map fst equipment_attributes"
    using templates_all_emitted [of fl rf] by (simp add: shape)
next
  show "snd (emit_templates floc r (take 4 equipment_attributes) ([], 1)) = 5"
    by (simp add: emit_templates_def equipment_attributes_def u_def)
next
  show "process_pdf_to_excel U W use_ocr d \<noteq> Inl NoDataStructured"
    by (simp add: process_pdf_to_excel_def Let_def format_nonempty
          split: sum.splits option.splits)
next
  assume "path_exists d \<and> choose_text_single U use_ocr d = Inr text \<and> strip U text \<noteq> []"
  then show "process_pdf_to_excel U W use_ocr d =
          (case W (format_text_to_structure U text (Some (stem d))) of
             Some e \<Rightarrow> Inl (Raised e)
           | None \<Rightarrow> Inr (length (format_text_to_structure U text (Some (stem d)))))"
    by (simp add: process_pdf_to_excel_def Let_def format_nonempty)
qed

theorem template_rows_always_emitted_witness:
  "15 \<le> length (format_text_to_structure ascii_tab (u ''abc'') None)
   \<and> process_pdf_to_excel ascii_tab (\<lambda>data. None) False
       \<lparr> path_exists = True, stem = u ''a'', extract_text_from_pdf = Inr (u ''abc''),
         ocr_pdf = Inr [] \<rparr> \<noteq> Inl NoDataStructured"
proof -
  have a: "strip ascii_tab (u ''abc'') \<noteq> []" by code_simp
  note w = template_rows_always_emitted [of ascii_tab "u ''abc''" None "[]" "[]"
     "\<lambda>data. None" False
     "\<lparr> path_exists = True, stem = u ''a'', extract_text_from_pdf = Inr (u ''abc''),
         ocr_pdf = Inr [] \<rparr>"]
  from w a show ?thesis by blast
qed

end
